theory Spec2Isabelle
  imports Complex_Main
begin

section \<open>JavaScript values as the handlers of \<open>src/app.js\<close> see them\<close>

text \<open>
  The two upstream payloads arrive as decoded JSON. A value is one of the JSON shapes,
  \<open>undefined\<close> (what a missing property reads as), \<open>NaN\<close> or an infinity (what
  arithmetic can give), or a member inherited from \<open>Object.prototype\<close> (\<open>JNative\<close>:
  one of its functions, or the prototype itself for \<open>__proto__\<close>). A finite number is
  the real a double denotes; \<open>-0\<close> is not told from \<open>0\<close>. An object is its list of
  own properties in the engine's enumeration order (the order \<open>Object.keys\<close> returns),
  with distinct keys. A \<open>JNative\<close> arises only as a looked-up exchange rate, and the
  handlers read no property of a rate.
\<close>

datatype jsval =
    JUndefined
  | JNull
  | JBool bool
  | JNum real
  | JNaN
  | JInf bool
  | JStr string
  | JArr "jsval list"
  | JObj "(string \<times> jsval) list"
  | JNative string

datatype js_error = TypeError | DbError

text \<open>Truthiness, as \<open>if (x)\<close>, \<open>x || y\<close>, \<open>x && y\<close> and \<open>x ? a : b\<close> test it.\<close>

fun truthy :: "jsval \<Rightarrow> bool" where
  "truthy JUndefined = False"
| "truthy JNull = False"
| "truthy (JBool b) = b"
| "truthy (JNum x) = (x \<noteq> 0)"
| "truthy JNaN = False"
| "truthy (JInf s) = True"
| "truthy (JStr s) = (s \<noteq> [])"
| "truthy (JArr xs) = True"
| "truthy (JObj kvs) = True"
| "truthy (JNative k) = True"

definition js_or :: "jsval \<Rightarrow> jsval \<Rightarrow> jsval" where
  "js_or a b = (if truthy a then a else b)"

fun nullish :: "jsval \<Rightarrow> bool" where
  "nullish JUndefined = True"
| "nullish JNull = True"
| "nullish v = False"

text \<open>
  \<open>v.k\<close> for a property name \<open>k\<close> that is not an array index: it raises \<open>TypeError\<close>
  on \<open>null\<close> and \<open>undefined\<close>, reads an own property of an object, knows \<open>length\<close>
  on arrays and strings, and is \<open>undefined\<close> everywhere else. None of the names the
  handlers read (\<open>currencies\<close>, \<open>name\<close>, \<open>common\<close>, \<open>capital\<close>, \<open>region\<close>,
  \<open>population\<close>, \<open>flags\<close>, \<open>png\<close>, \<open>flag\<close>, \<open>code\<close>) is inherited from a prototype
  of a JSON value.
\<close>

fun get_prop :: "jsval \<Rightarrow> string \<Rightarrow> js_error + jsval" where
  "get_prop JUndefined k = Inl TypeError"
| "get_prop JNull k = Inl TypeError"
| "get_prop (JObj kvs) k = Inr (case map_of kvs k of None \<Rightarrow> JUndefined | Some v \<Rightarrow> v)"
| "get_prop (JArr xs) k = Inr (if k = ''length'' then JNum (real (length xs)) else JUndefined)"
| "get_prop (JStr s) k = Inr (if k = ''length'' then JNum (real (length s)) else JUndefined)"
| "get_prop v k = Inr JUndefined"

text \<open>\<open>v?.k\<close>: \<open>undefined\<close> instead of the \<open>TypeError\<close>.\<close>

definition get_prop_opt :: "jsval \<Rightarrow> string \<Rightarrow> jsval" where
  "get_prop_opt v k = (case get_prop v k of Inl e \<Rightarrow> JUndefined | Inr x \<Rightarrow> x)"

text \<open>\<open>v[0]\<close>.\<close>

fun get_first :: "jsval \<Rightarrow> js_error + jsval" where
  "get_first JUndefined = Inl TypeError"
| "get_first JNull = Inl TypeError"
| "get_first (JArr xs) = Inr (case xs of [] \<Rightarrow> JUndefined | x # _ \<Rightarrow> x)"
| "get_first (JStr s) = Inr (case s of [] \<Rightarrow> JUndefined | c # _ \<Rightarrow> JStr [c])"
| "get_first (JObj kvs) = Inr (case map_of kvs ''0'' of None \<Rightarrow> JUndefined | Some v \<Rightarrow> v)"
| "get_first v = Inr JUndefined"

text \<open>Decimal digits of an array index, for the keys of arrays and strings.\<close>

fun dec_string :: "nat \<Rightarrow> string" where
  "dec_string n =
     (if n < 10 then [char_of (48 + n)]
      else dec_string (n div 10) @ [char_of (48 + n mod 10)])"

text \<open>\<open>Object.keys(v)\<close> for a value that is neither \<open>null\<close> nor \<open>undefined\<close>.\<close>

fun object_keys :: "jsval \<Rightarrow> string list" where
  "object_keys (JObj kvs) = map fst kvs"
| "object_keys (JArr xs) = map dec_string [0..<length xs]"
| "object_keys (JStr s) = map dec_string [0..<length s]"
| "object_keys v = []"

text \<open>The members every plain object inherits from \<open>Object.prototype\<close>.\<close>

definition object_prototype_members :: "string list" where
  "object_prototype_members =
     [''constructor'', ''__defineGetter__'', ''__defineSetter__'', ''hasOwnProperty'',
      ''__lookupGetter__'', ''__lookupSetter__'', ''isPrototypeOf'',
      ''propertyIsEnumerable'', ''toString'', ''valueOf'', ''__proto__'',
      ''toLocaleString'']"

section \<open>Numbers\<close>

text \<open>
  The result of arithmetic is a double: a finite one, an infinity (\<open>True\<close> for the
  positive one) or \<open>NaN\<close>.
\<close>

datatype double = Finite real | Infinity bool | NaN

fun of_num :: "double \<Rightarrow> jsval" where
  "of_num (Finite x) = JNum x"
| "of_num (Infinity s) = JInf s"
| "of_num NaN = JNaN"

text \<open>
  What the source leaves to the runtime, to the driver and to the database server is a
  parameter of the model:
  \<^item> \<open>str_to_num\<close> and \<open>to_str\<close>: the conversion of a string to a number and of a
    non-string value to a string (parts of JavaScript's \<open>ToNumber\<close> and
    \<open>ToPropertyKey\<close>);
  \<^item> \<open>round_double\<close>: the double that an arithmetic operation returns for its exact
    result (the nearest one, an infinity beyond the range);
  \<^item> \<open>math_random w i\<close>: the result of the \<open>Math.random()\<close> made while batch entry
    \<open>i\<close> is processed;
  \<^item> \<open>clock w i\<close>: what \<open>new Date()\<close> reads once \<open>i\<close> entries have been processed;
    \<open>db_clock w i\<close>: the server's \<open>NOW()\<close> and \<open>CURRENT_TIMESTAMP\<close> while entry
    \<open>i\<close> is written;
  \<^item> \<open>accepts\<close>: whether the driver and the server take a statement with the given
    bound values at all (the driver refuses some values, the server refuses values a
    column's type cannot hold);
  \<^item> \<open>name_eq\<close>: the comparison \<open>name = ?\<close> of a stored name with a bound value (or
    with another stored name, in the \<open>UNIQUE\<close> index), which the collation of the
    column decides; the schema names none, so the server's default applies;
  \<^item> \<open>stored\<close>: the value a column holds after a bound value was written to it (a
    \<open>DECIMAL\<close> column rounds, for one).
\<close>

datatype stmt = SelectId | UpdateRow | InsertRow

datatype column =
  ColName | ColCapital | ColRegion | ColPopulation | ColCurrencyCode | ColExchangeRate
  | ColEstimatedGdp | ColFlagUrl

record world =
  str_to_num :: "string \<Rightarrow> double"
  to_str :: "jsval \<Rightarrow> string"
  round_double :: "real \<Rightarrow> double"
  math_random :: "nat \<Rightarrow> real"
  clock :: "nat \<Rightarrow> nat"
  db_clock :: "nat \<Rightarrow> nat"
  accepts :: "stmt \<Rightarrow> jsval list \<Rightarrow> bool"
  name_eq :: "jsval \<Rightarrow> jsval \<Rightarrow> bool"
  stored :: "column \<Rightarrow> jsval \<Rightarrow> jsval"

text \<open>\<open>ToNumber\<close>.\<close>

fun to_number :: "world \<Rightarrow> jsval \<Rightarrow> double" where
  "to_number w JUndefined = NaN"
| "to_number w JNull = Finite 0"
| "to_number w (JBool b) = Finite (if b then 1 else 0)"
| "to_number w (JNum x) = Finite x"
| "to_number w JNaN = NaN"
| "to_number w (JInf s) = Infinity s"
| "to_number w (JStr s) = str_to_num w s"
| "to_number w (JNative k) = NaN"
| "to_number w v = str_to_num w (to_str w v)"

text \<open>\<open>v > 0\<close>.\<close>

definition js_gt0 :: "world \<Rightarrow> jsval \<Rightarrow> bool" where
  "js_gt0 w v = (case to_number w v of Finite x \<Rightarrow> 0 < x | Infinity s \<Rightarrow> s | NaN \<Rightarrow> False)"

text \<open>
  \<open>a * b\<close>, \<open>a / b\<close>, \<open>a + b\<close>, \<open>a - b\<close> and \<open>Math.floor(a)\<close> on doubles. The exact
  result of two finite operands is rounded; the floor of a double is a double. A zero
  divisor is taken as \<open>+0\<close>; the handlers divide only by a rate that passed a truthiness
  test, never by zero.
\<close>

fun num_mul :: "world \<Rightarrow> double \<Rightarrow> double \<Rightarrow> double" where
  "num_mul w (Finite x) (Finite y) = round_double w (x * y)"
| "num_mul w (Finite x) (Infinity t) = (if x = 0 then NaN else Infinity (t = (0 < x)))"
| "num_mul w (Infinity s) (Finite y) = (if y = 0 then NaN else Infinity (s = (0 < y)))"
| "num_mul w (Infinity s) (Infinity t) = Infinity (s = t)"
| "num_mul w a b = NaN"

fun num_div :: "world \<Rightarrow> double \<Rightarrow> double \<Rightarrow> double" where
  "num_div w (Finite x) (Finite y) =
     (if y = 0 then (if x = 0 then NaN else Infinity (0 < x)) else round_double w (x / y))"
| "num_div w (Finite x) (Infinity t) = Finite 0"
| "num_div w (Infinity s) (Finite y) = Infinity (s = (0 \<le> y))"
| "num_div w a b = NaN"

fun num_add :: "world \<Rightarrow> double \<Rightarrow> double \<Rightarrow> double" where
  "num_add w (Finite x) (Finite y) = round_double w (x + y)"
| "num_add w (Finite x) (Infinity t) = Infinity t"
| "num_add w (Infinity s) (Finite y) = Infinity s"
| "num_add w (Infinity s) (Infinity t) = (if s = t then Infinity s else NaN)"
| "num_add w a b = NaN"

fun num_sub :: "world \<Rightarrow> double \<Rightarrow> double \<Rightarrow> double" where
  "num_sub w (Finite x) (Finite y) = round_double w (x - y)"
| "num_sub w (Finite x) (Infinity t) = Infinity (\<not> t)"
| "num_sub w (Infinity s) (Finite y) = Infinity s"
| "num_sub w (Infinity s) (Infinity t) = (if s = t then NaN else Infinity s)"
| "num_sub w a b = NaN"

fun num_floor :: "double \<Rightarrow> double" where
  "num_floor (Finite x) = Finite (of_int \<lfloor>x\<rfloor>)"
| "num_floor a = a"



section \<open>The countries table\<close>

text \<open>
  The columns of \<open>CREATE TABLE countries\<close> that the handlers write and read, in the
  order of the \<open>INSERT\<close> statement. The \<open>id\<close> column is left out: the handlers only
  test whether a row was found. The database is taken to be reachable.
\<close>

record country_fields =
  name :: jsval
  capital :: jsval
  region :: jsval
  population :: jsval
  currency_code :: jsval
  exchange_rate :: jsval
  estimated_gdp :: jsval
  flag_url :: jsval

record row =
  cols :: country_fields
  last_refreshed_at :: nat

type_synonym table = "row list"

type_synonym rates = "(string \<times> real) list"

text \<open>The bound values of the \<open>INSERT\<close> and of the \<open>UPDATE\<close>, in the order of the source.\<close>

definition insert_params :: "country_fields \<Rightarrow> jsval list" where
  "insert_params f =
     [name f, capital f, region f, population f, currency_code f, exchange_rate f,
      estimated_gdp f, flag_url f]"

definition update_params :: "country_fields \<Rightarrow> jsval list" where
  "update_params f =
     [capital f, region f, population f, currency_code f, exchange_rate f,
      estimated_gdp f, flag_url f, name f]"

text \<open>What the columns hold once the bound values of a record were written.\<close>

definition store_fields :: "world \<Rightarrow> country_fields \<Rightarrow> country_fields" where
  "store_fields w f =
     \<lparr>name = stored w ColName (name f),
      capital = stored w ColCapital (capital f),
      region = stored w ColRegion (region f),
      population = stored w ColPopulation (population f),
      currency_code = stored w ColCurrencyCode (currency_code f),
      exchange_rate = stored w ColExchangeRate (exchange_rate f),
      estimated_gdp = stored w ColEstimatedGdp (estimated_gdp f),
      flag_url = stored w ColFlagUrl (flag_url f)\<rparr>"

text \<open>\<open>WHERE name = ?\<close>: a comparison with \<open>NULL\<close> selects nothing.\<close>

definition sql_eq :: "world \<Rightarrow> jsval \<Rightarrow> jsval \<Rightarrow> bool" where
  "sql_eq w a b = (a \<noteq> JNull \<and> b \<noteq> JNull \<and> name_eq w a b)"

definition name_matches :: "world \<Rightarrow> jsval \<Rightarrow> row \<Rightarrow> bool" where
  "name_matches w n r = sql_eq w (name (cols r)) n"

text \<open>
  \<open>INSERT INTO countries\<close>: refused when the driver or server refuses the values, when
  \<open>name\<close> or \<open>population\<close> (both \<open>NOT NULL\<close>) is \<open>NULL\<close>, and when the table holds a
  name equal to the new one (\<open>name\<close> is \<open>UNIQUE\<close>). The new row takes the server's
  time as \<open>last_refreshed_at\<close> (\<open>DEFAULT CURRENT_TIMESTAMP\<close>).
\<close>

definition db_insert :: "world \<Rightarrow> country_fields \<Rightarrow> nat \<Rightarrow> table \<Rightarrow> js_error + table" where
  "db_insert w f now t =
     (if \<not> accepts w InsertRow (insert_params f) \<or> name f = JNull \<or> population f = JNull
         \<or> list_ex (name_matches w (stored w ColName (name f))) t
      then Inl DbError
      else Inr (t @ [\<lparr>cols = store_fields w f, last_refreshed_at = now\<rparr>]))"

text \<open>\<open>UPDATE countries SET ... , last_refreshed_at = NOW() WHERE name = ?\<close>.\<close>

definition update_row :: "world \<Rightarrow> country_fields \<Rightarrow> nat \<Rightarrow> row \<Rightarrow> row" where
  "update_row w f now r =
     (if name_matches w (name f) r
      then \<lparr>cols = (cols r)\<lparr>capital := stored w ColCapital (capital f),
                region := stored w ColRegion (region f),
                population := stored w ColPopulation (population f),
                currency_code := stored w ColCurrencyCode (currency_code f),
                exchange_rate := stored w ColExchangeRate (exchange_rate f),
                estimated_gdp := stored w ColEstimatedGdp (estimated_gdp f),
                flag_url := stored w ColFlagUrl (flag_url f)\<rparr>,
            last_refreshed_at = now\<rparr>
      else r)"

definition db_update :: "world \<Rightarrow> country_fields \<Rightarrow> nat \<Rightarrow> table \<Rightarrow> js_error + table" where
  "db_update w f now t =
     (if accepts w UpdateRow (update_params f) then Inr (map (update_row w f now) t)
      else Inl DbError)"

section \<open>The record mapper\<close>

text \<open>\<open>getRandomNumber(min, max)\<close>; \<open>r\<close> is the result of \<open>Math.random()\<close>.\<close>

definition getRandomNumber :: "world \<Rightarrow> real \<Rightarrow> real \<Rightarrow> real \<Rightarrow> double" where
  "getRandomNumber w r min_v max_v =
     num_add w
       (num_floor
          (num_mul w (Finite r)
             (num_add w (num_sub w (Finite max_v) (Finite min_v)) (Finite 1))))
       (Finite min_v)"

text \<open>
  \<open>exchangeRates[currencyCode]\<close>. The rate table is the \<open>rates\<close> object of the
  exchange payload, a JSON object of numbers; a key that is not a string is converted to
  one. A key the object does not own is looked up in \<open>Object.prototype\<close>.
\<close>

definition rate_lookup :: "world \<Rightarrow> rates \<Rightarrow> jsval \<Rightarrow> jsval" where
  "rate_lookup w exchangeRates currencyCode =
     (let k = (case currencyCode of JStr s \<Rightarrow> s | v \<Rightarrow> to_str w v)
      in case map_of exchangeRates k of
           Some x \<Rightarrow> JNum x
         | None \<Rightarrow> if k \<in> set object_prototype_members then JNative k else JUndefined)"

text \<open>
  \<open>parseFloat\<close> of a looked-up rate: a number is itself, an inherited member reads as
  text that starts with no number.
\<close>

fun parseFloat :: "jsval \<Rightarrow> double" where
  "parseFloat (JNum x) = Finite x"
| "parseFloat v = NaN"

text \<open>\<open>(country.population * randomMultiplier) / exchangeRate\<close>.\<close>

definition estimate_gdp :: "world \<Rightarrow> jsval \<Rightarrow> double \<Rightarrow> double \<Rightarrow> jsval" where
  "estimate_gdp w pop randomMultiplier exchangeRate =
     of_num (num_div w (num_mul w (to_number w pop) randomMultiplier) exchangeRate)"

definition then_do :: "js_error + 'a \<Rightarrow> ('a \<Rightarrow> js_error + 'b) \<Rightarrow> js_error + 'b" where
  "then_do m f = (case m of Inl e \<Rightarrow> Inl e | Inr x \<Rightarrow> f x)"

subsection \<open>Full-replace variant (first handler of \<open>POST /countries/refresh\<close>)\<close>

text \<open>\<open>currencyCode\<close>, \<open>exchangeRate\<close> and \<open>estimatedGDP\<close> as the loop body leaves them.\<close>

definition full_replace_currency ::
  "world \<Rightarrow> rates \<Rightarrow> nat \<Rightarrow> jsval \<Rightarrow> jsval \<Rightarrow> jsval \<times> jsval \<times> jsval" where
  "full_replace_currency w exchangeRates i pop currencies =
     (if truthy currencies then
        (case object_keys currencies of
           [] \<Rightarrow> (JNull, JNull, JNull)
         | k # _ \<Rightarrow>
            if truthy (JStr k) \<and> truthy (rate_lookup w exchangeRates (JStr k))
            then (let exchangeRate = parseFloat (rate_lookup w exchangeRates (JStr k));
                      randomMultiplier = getRandomNumber w (math_random w i) 1000 2000
                  in (JStr k, of_num exchangeRate,
                      estimate_gdp w pop randomMultiplier exchangeRate))
            else (JStr k, JNull, JNull))
      else (JNull, JNull, JNull))"

definition full_replace_fields ::
  "world \<Rightarrow> rates \<Rightarrow> nat \<Rightarrow> jsval \<Rightarrow> js_error + country_fields" where
  "full_replace_fields w exchangeRates i country =
     then_do (get_prop country ''currencies'') (\<lambda>currencies.
     then_do (get_prop country ''population'') (\<lambda>pop.
     then_do (get_prop country ''name'') (\<lambda>nm.
     then_do (get_prop country ''capital'') (\<lambda>cap.
     then_do (if truthy cap then get_first cap else Inr JNull) (\<lambda>cap0.
     then_do (get_prop country ''region'') (\<lambda>reg.
     then_do (get_prop country ''flags'') (\<lambda>flags.
       (case full_replace_currency w exchangeRates i pop currencies of
          (currencyCode, exchangeRate, estimatedGDP) \<Rightarrow>
            Inr \<lparr>name = js_or (get_prop_opt nm ''common'') (JStr ''Unknown''),
                 capital = cap0,
                 region = js_or reg JNull,
                 population = js_or pop (JNum 0),
                 currency_code = currencyCode,
                 exchange_rate = exchangeRate,
                 estimated_gdp = estimatedGDP,
                 flag_url = js_or (get_prop_opt flags ''png'') JNull\<rparr>))))))))"

subsection \<open>Upsert variant (second handler of \<open>POST /countries/refresh\<close>)\<close>

definition upsert_currency ::
  "world \<Rightarrow> rates \<Rightarrow> nat \<Rightarrow> jsval \<Rightarrow> jsval \<Rightarrow> js_error + jsval \<times> jsval \<times> jsval" where
  "upsert_currency w exchangeRates i pop currencies =
     (if truthy currencies \<and> js_gt0 w (get_prop_opt currencies ''length'') then
        then_do (get_first currencies) (\<lambda>c0.
        then_do (get_prop c0 ''code'') (\<lambda>currencyCode.
          if truthy currencyCode \<and> truthy (rate_lookup w exchangeRates currencyCode)
          then (let exchangeRate = rate_lookup w exchangeRates currencyCode;
                    randomMultiplier =
                      num_add w (num_mul w (Finite (math_random w i)) (Finite 1000))
                        (Finite 1000)
                in Inr (currencyCode, exchangeRate,
                        estimate_gdp w pop randomMultiplier (to_number w exchangeRate)))
          else Inr (currencyCode, JNull, JNull)))
      else Inr (JNull, JNull, JNull))"

definition upsert_fields ::
  "world \<Rightarrow> rates \<Rightarrow> nat \<Rightarrow> jsval \<Rightarrow> js_error + country_fields" where
  "upsert_fields w exchangeRates i country =
     then_do (get_prop country ''currencies'') (\<lambda>currencies.
     then_do (get_prop country ''population'') (\<lambda>pop.
     then_do (upsert_currency w exchangeRates i pop currencies) (\<lambda>(currencyCode, exchangeRate, estimatedGDP).
     then_do (get_prop country ''name'') (\<lambda>nm.
     then_do (get_prop country ''capital'') (\<lambda>cap.
     then_do (get_prop country ''region'') (\<lambda>reg.
     then_do (get_prop country ''flag'') (\<lambda>flag.
       Inr \<lparr>name = nm,
            capital = js_or cap JNull,
            region = js_or reg JNull,
            population = pop,
            currency_code = currencyCode,
            exchange_rate = exchangeRate,
            estimated_gdp = estimatedGDP,
            flag_url = js_or flag JNull\<rparr>)))))))"

section \<open>Requests and responses\<close>

datatype body =
    NoBody
  | ErrorBody string
  | RefreshedFull nat nat \<comment> \<open>\<open>total_countries\<close>, \<open>last_refreshed_at\<close>\<close>
  | RefreshedUpsert nat nat nat \<comment> \<open>\<open>total_processed\<close>, \<open>successful\<close>, \<open>last_refreshed_at\<close>\<close>
  | CountryBody row
  | StatusBody nat "nat option" \<comment> \<open>\<open>total_countries\<close>, \<open>last_refreshed_at\<close>\<close>

record http_response =
  status :: nat
  body :: body

text \<open>
  What an \<open>axios.get\<close> rejects with: its \<open>code\<close>, and the status of the response when
  the upstream answered at all (\<open>error.response\<close> is set for a non-success status only).
\<close>

record axios_error =
  err_code :: "string option"
  err_response :: "nat option"

datatype 'a fetch = Fetched 'a | Failed axios_error

text \<open>
  The rejection of a request whose \<open>timeout: 30000\<close> elapsed: axios sets the code
  \<open>ECONNABORTED\<close> and no response. A refused connection has the code
  \<open>ECONNREFUSED\<close> and no response either.
\<close>

definition timeout_error :: axios_error where
  "timeout_error = \<lparr>err_code = Some ''ECONNABORTED'', err_response = None\<rparr>"

definition refused_error :: axios_error where
  "refused_error = \<lparr>err_code = Some ''ECONNREFUSED'', err_response = None\<rparr>"

definition internal_error :: http_response where
  "internal_error = \<lparr>status = 500, body = ErrorBody ''Internal server error''\<rparr>"

definition unavailable :: http_response where
  "unavailable = \<lparr>status = 503, body = ErrorBody ''External data source unavailable''\<rparr>"

section \<open>\<open>POST /countries/refresh\<close>, full-replace variant\<close>

text \<open>The \<open>catch\<close> block of the handler.\<close>

definition refresh_catch_full_replace :: "axios_error \<Rightarrow> http_response" where
  "refresh_catch_full_replace error =
     (if err_code error = Some ''ECONNREFUSED'' \<or> err_response error \<noteq> None
      then unavailable else internal_error)"

text \<open>The \<open>try\<close> block of the loop body: map the entry, insert it.\<close>

definition full_replace_entry ::
  "world \<Rightarrow> rates \<Rightarrow> nat \<Rightarrow> jsval \<Rightarrow> table \<Rightarrow> js_error + table" where
  "full_replace_entry w exchangeRates i country t =
     then_do (full_replace_fields w exchangeRates i country)
       (\<lambda>f. db_insert w f (db_clock w i) t)"

text \<open>
  The loop over \<open>countries.slice(0, 50)\<close>, with \<open>successCount\<close>. A failed entry is
  logged and skipped; the log line reads \<open>country.name?.common\<close>, which itself raises
  when the entry is \<open>null\<close>, and then the loop is left with the exception (\<open>None\<close>)
  and the outer \<open>catch\<close> answers 500.
\<close>

fun full_replace_loop ::
  "world \<Rightarrow> rates \<Rightarrow> nat \<Rightarrow> jsval list \<Rightarrow> table \<Rightarrow> nat \<Rightarrow> table \<times> nat option" where
  "full_replace_loop w exchangeRates i [] t successCount = (t, Some successCount)"
| "full_replace_loop w exchangeRates i (country # rest) t successCount =
     (case full_replace_entry w exchangeRates i country t of
        Inr t' \<Rightarrow> full_replace_loop w exchangeRates (Suc i) rest t' (Suc successCount)
      | Inl e \<Rightarrow>
          (case get_prop country ''name'' of
             Inl e' \<Rightarrow> (t, None)
           | Inr nm \<Rightarrow> full_replace_loop w exchangeRates (Suc i) rest t successCount))"

text \<open>
  The handler: both fetches, then \<open>DELETE FROM countries\<close>, the loop, and the answer.
  No transaction is opened, so each statement takes effect when it runs and the closing
  \<open>COMMIT\<close> and \<open>ROLLBACK\<close> change nothing.
\<close>

definition post_refresh_full_replace ::
  "world \<Rightarrow> jsval list fetch \<Rightarrow> rates fetch \<Rightarrow> table \<Rightarrow> http_response \<times> table" where
  "post_refresh_full_replace w countriesResponse exchangeResponse t =
     (case countriesResponse of
        Failed error \<Rightarrow> (refresh_catch_full_replace error, t)
      | Fetched countries \<Rightarrow>
          (case exchangeResponse of
             Failed error \<Rightarrow> (refresh_catch_full_replace error, t)
           | Fetched exchangeRates \<Rightarrow>
               (case full_replace_loop w exchangeRates 0 (take 50 countries) [] 0 of
                  (t', None) \<Rightarrow> (internal_error, t')
                | (t', Some successCount) \<Rightarrow>
                    (\<lparr>status = 201,
                      body = RefreshedFull successCount
                               (clock w (length (take 50 countries)))\<rparr>, t'))))"

section \<open>\<open>POST /countries/refresh\<close>, upsert variant\<close>

record server =
  countries :: table
  lastRefreshTime :: "nat option"

definition refresh_catch_upsert :: "axios_error \<Rightarrow> http_response" where
  "refresh_catch_upsert error =
     (if err_response error \<noteq> None then unavailable else internal_error)"

text \<open>
  The \<open>try\<close> block of the loop body: map the entry, look its name up, then update the
  rows found or insert a new one.
\<close>

definition upsert_entry ::
  "world \<Rightarrow> rates \<Rightarrow> nat \<Rightarrow> jsval \<Rightarrow> table \<Rightarrow> js_error + table" where
  "upsert_entry w exchangeRates i country t =
     then_do (upsert_fields w exchangeRates i country) (\<lambda>f.
       if \<not> accepts w SelectId [name f] then Inl DbError
       else if length (filter (name_matches w (name f)) t) > 0
       then db_update w f (db_clock w i) t
       else db_insert w f (db_clock w i) t)"

text \<open>
  The loop over \<open>countries.slice(0, 10)\<close>, with \<open>processedCount\<close> and
  \<open>successCount\<close>. The \<open>catch\<close> block reads \<open>country.name\<close> for its log line before
  it counts the entry, which raises when the entry is \<open>null\<close>.
\<close>

fun upsert_loop ::
  "world \<Rightarrow> rates \<Rightarrow> nat \<Rightarrow> jsval list \<Rightarrow> table \<Rightarrow> nat \<Rightarrow> nat \<Rightarrow> table \<times> (nat \<times> nat) option" where
  "upsert_loop w exchangeRates i [] t processedCount successCount =
     (t, Some (processedCount, successCount))"
| "upsert_loop w exchangeRates i (country # rest) t processedCount successCount =
     (case upsert_entry w exchangeRates i country t of
        Inr t' \<Rightarrow>
          upsert_loop w exchangeRates (Suc i) rest t' (Suc processedCount) (Suc successCount)
      | Inl e \<Rightarrow>
          (case get_prop country ''name'' of
             Inl e' \<Rightarrow> (t, None)
           | Inr nm \<Rightarrow>
               upsert_loop w exchangeRates (Suc i) rest t (Suc processedCount) successCount))"

definition post_refresh_upsert ::
  "world \<Rightarrow> jsval list fetch \<Rightarrow> rates fetch \<Rightarrow> server \<Rightarrow> http_response \<times> server" where
  "post_refresh_upsert w countriesResponse exchangeResponse s =
     (case countriesResponse of
        Failed error \<Rightarrow> (refresh_catch_upsert error, s)
      | Fetched cs \<Rightarrow>
          (case exchangeResponse of
             Failed error \<Rightarrow> (refresh_catch_upsert error, s)
           | Fetched exchangeRates \<Rightarrow>
               (case upsert_loop w exchangeRates 0 (take 10 cs) (countries s) 0 0 of
                  (t', None) \<Rightarrow> (internal_error, s\<lparr>countries := t'\<rparr>)
                | (t', Some (processedCount, successCount)) \<Rightarrow>
                    (\<lparr>status = 200,
                      body = RefreshedUpsert processedCount successCount
                               (clock w (length (take 10 cs)))\<rparr>,
                     \<lparr>countries = t',
                      lastRefreshTime = Some (clock w (length (take 10 cs)))\<rparr>))))"

section \<open>\<open>GET /countries\<close>\<close>

text \<open>
  The query text and its bound values, from the \<open>region\<close>, \<open>currency\<close> and \<open>sort\<close>
  query parameters (\<open>undefined\<close> when absent).
\<close>

definition where_clause :: "jsval \<Rightarrow> jsval \<Rightarrow> string \<times> jsval list" where
  "where_clause region_q currency_q =
     (let q0 = ''SELECT * FROM countries WHERE 1=1'';
          (q1, p1) = (if truthy region_q then (q0 @ '' AND region = ?'', [region_q])
                      else (q0, []));
          (q2, p2) = (if truthy currency_q then (q1 @ '' AND currency_code = ?'', p1 @ [currency_q])
                      else (q1, p1))
      in (q2, p2))"

definition get_countries_full_replace :: "jsval \<Rightarrow> jsval \<Rightarrow> jsval \<Rightarrow> string \<times> jsval list" where
  "get_countries_full_replace region_q currency_q sort_q =
     (case where_clause region_q currency_q of (query, params) \<Rightarrow>
        (if sort_q = JStr ''gdp_desc'' then query @ '' ORDER BY estimated_gdp DESC''
         else if sort_q = JStr ''population_desc'' then query @ '' ORDER BY population DESC''
         else query @ '' ORDER BY name ASC'', params))"

definition get_countries_upsert :: "jsval \<Rightarrow> jsval \<Rightarrow> jsval \<Rightarrow> string \<times> jsval list" where
  "get_countries_upsert region_q currency_q sort_q =
     (case where_clause region_q currency_q of (query, params) \<Rightarrow>
        (if sort_q = JStr ''gdp_desc'' then query @ '' ORDER BY estimated_gdp DESC''
         else if sort_q = JStr ''gdp_asc'' then query @ '' ORDER BY estimated_gdp ASC''
         else if sort_q = JStr ''population_desc'' then query @ '' ORDER BY population DESC''
         else query @ '' ORDER BY name ASC'', params))"

section \<open>\<open>GET /countries/:name\<close> and \<open>DELETE /countries/:name\<close>\<close>

definition name_required :: http_response where
  "name_required = \<lparr>status = 400, body = ErrorBody ''Country name is required''\<rparr>"

definition not_found :: http_response where
  "not_found = \<lparr>status = 404, body = ErrorBody ''Country not found''\<rparr>"

text \<open>
  \<open>countries[0]\<close> is the first row the \<open>SELECT\<close> returns; \<open>name\<close> is \<open>UNIQUE\<close>,
  so a name selects at most one row, and the rows are taken in the order of the table.
\<close>

definition get_country_by_name :: "world \<Rightarrow> string \<Rightarrow> table \<Rightarrow> http_response" where
  "get_country_by_name w countryName t =
     (if \<not> truthy (JStr countryName) then name_required
      else (case filter (name_matches w (JStr countryName)) t of
              [] \<Rightarrow> not_found
            | r # _ \<Rightarrow> \<lparr>status = 200, body = CountryBody r\<rparr>))"

definition delete_country_by_name :: "world \<Rightarrow> string \<Rightarrow> table \<Rightarrow> http_response \<times> table" where
  "delete_country_by_name w countryName t =
     (if \<not> truthy (JStr countryName) then (name_required, t)
      else (let t' = filter (\<lambda>r. \<not> name_matches w (JStr countryName) r) t;
                affectedRows = length t - length t'
            in if affectedRows = 0 then (not_found, t')
               else (\<lparr>status = 204, body = NoBody\<rparr>, t')))"

section \<open>\<open>GET /status\<close>\<close>

text \<open>\<open>SELECT MAX(last_refreshed_at)\<close>: \<open>NULL\<close> on an empty table.\<close>

definition max_last_refreshed_at :: "table \<Rightarrow> nat option" where
  "max_last_refreshed_at t =
     (case t of [] \<Rightarrow> None
      | r # rs \<Rightarrow> Some (fold (\<lambda>x m. max (last_refreshed_at x) m) rs (last_refreshed_at r)))"

text \<open>
  A timestamp that was read is a \<open>Date\<close> object and so truthy: \<open>x || y\<close> is \<open>y\<close> only
  when the query gave \<open>NULL\<close>.
\<close>

definition get_status_full_replace :: "table \<Rightarrow> http_response" where
  "get_status_full_replace t =
     \<lparr>status = 200,
      body = StatusBody (length t)
               (case max_last_refreshed_at t of None \<Rightarrow> None | Some x \<Rightarrow> Some x)\<rparr>"

definition get_status_upsert :: "server \<Rightarrow> http_response" where
  "get_status_upsert s =
     \<lparr>status = 200,
      body = StatusBody (length (countries s))
               (case max_last_refreshed_at (countries s) of
                  None \<Rightarrow> lastRefreshTime s
                | Some x \<Rightarrow> Some x)\<rparr>"

text \<open>The upsert server when its process starts: \<open>let lastRefreshTime = null\<close>.\<close>

definition start_server :: "table \<Rightarrow> server" where
  "start_server t = \<lparr>countries = t, lastRefreshTime = None\<rparr>"


section \<open>Sample inputs\<close>

text \<open>
  A world for running the handlers on concrete inputs: every \<open>Math.random()\<close> gives
  \<open>r\<close>, both clocks advance by one per entry, no string is numeric, a statement is
  taken unless one of its bound values is \<open>undefined\<close>, names compare without regard
  to the case of ASCII letters, and columns hold what was bound. Rounding is the
  identity: every number the sample runs compute is a double.
\<close>

definition lower_char :: "char \<Rightarrow> char" where
  "lower_char c =
     (case map_of (zip ''ABCDEFGHIJKLMNOPQRSTUVWXYZ'' ''abcdefghijklmnopqrstuvwxyz'') c of
        None \<Rightarrow> c
      | Some l \<Rightarrow> l)"

fun fold_case :: "jsval \<Rightarrow> jsval" where
  "fold_case (JStr s) = JStr (map lower_char s)"
| "fold_case v = v"

definition sample_world :: "real \<Rightarrow> world" where
  "sample_world r =
     \<lparr>str_to_num = (\<lambda>s. NaN), to_str = (\<lambda>v. []), round_double = Finite,
      math_random = (\<lambda>i. r), clock = (\<lambda>i. 100 + i), db_clock = (\<lambda>i. 100 + i),
      accepts = (\<lambda>k ps. JUndefined \<notin> set ps),
      name_eq = (\<lambda>a b. fold_case a = fold_case b),
      stored = (\<lambda>c v. v)\<rparr>"

text \<open>The payload of the scenario in the specification, in the shape of each upstream.\<close>

definition testland_v3 :: jsval where
  "testland_v3 =
     JObj [(''name'', JObj [(''common'', JStr ''Testland'')]), (''population'', JNum 1000),
           (''currencies'', JObj [(''USD'', JObj [])]),
           (''capital'', JArr [JStr ''Test City''])]"

definition testland_v2 :: jsval where
  "testland_v2 =
     JObj [(''name'', JStr ''Testland''), (''population'', JNum 1000),
           (''currencies'', JArr [JObj [(''code'', JStr ''USD'')]]),
           (''capital'', JStr ''Test City'')]"

text \<open>
  A later entry for the same country, its name in capitals, with other data; and an
  entry of another name.
\<close>

definition testland_v2_upper :: jsval where
  "testland_v2_upper =
     JObj [(''name'', JStr ''TESTLAND''), (''population'', JNum 2500),
           (''capital'', JStr ''New City'')]"

definition otherland_v2 :: jsval where
  "otherland_v2 = JObj [(''name'', JStr ''Otherland''), (''population'', JNum 7)]"

text \<open>
  Two more entries named Testland that cannot be written: one without a population,
  one whose currency list holds \<open>null\<close>.
\<close>

definition testland_v2_no_population :: jsval where
  "testland_v2_no_population =
     JObj [(''name'', JStr ''Testland''), (''capital'', JStr ''New City'')]"

definition testland_v2_null_currency :: jsval where
  "testland_v2_null_currency =
     JObj [(''name'', JStr ''Testland''), (''population'', JNum 2500),
           (''currencies'', JArr [JNull])]"

text \<open>
  An entry whose currency code is the name of a member of \<open>Object.prototype\<close>, in both
  shapes.
\<close>

definition valueof_v3 :: jsval where
  "valueof_v3 =
     JObj [(''name'', JObj [(''common'', JStr ''Zedland'')]), (''population'', JNum 5),
           (''currencies'', JObj [(''valueOf'', JObj [])])]"

definition valueof_v2 :: jsval where
  "valueof_v2 =
     JObj [(''name'', JStr ''Zedland''), (''population'', JNum 5),
           (''currencies'', JArr [JObj [(''code'', JStr ''valueOf'')]])]"

text \<open>A row stored by an earlier refresh.\<close>

definition otherland_row :: row where
  "otherland_row =
     \<lparr>cols = \<lparr>name = JStr ''Otherland'', capital = JNull, region = JNull,
              population = JNum 7, currency_code = JNull, exchange_rate = JNull,
              estimated_gdp = JNull, flag_url = JNull\<rparr>,
      last_refreshed_at = 50\<rparr>"

text \<open>An entry that carries neither a name nor a population.\<close>

definition nameless_country :: jsval where
  "nameless_country = JObj [(''region'', JStr ''Europe'')]"

definition usd_rates :: rates where
  "usd_rates = [(''USD'', 2)]"

definition testland_row :: "real \<Rightarrow> row" where
  "testland_row gdp =
     \<lparr>cols = \<lparr>name = JStr ''Testland'', capital = JStr ''Test City'', region = JNull,
              population = JNum 1000, currency_code = JStr ''USD'', exchange_rate = JNum 2,
              estimated_gdp = JNum gdp, flag_url = JNull\<rparr>,
      last_refreshed_at = 100\<rparr>"

lemmas model_defs =
  then_do_def js_or_def get_prop_opt_def js_gt0_def rate_lookup_def estimate_gdp_def
  getRandomNumber_def insert_params_def update_params_def sql_eq_def name_matches_def
  store_fields_def db_insert_def db_update_def update_row_def
  object_prototype_members_def
  full_replace_currency_def full_replace_fields_def full_replace_entry_def
  upsert_currency_def upsert_fields_def upsert_entry_def

lemmas sample_defs =
  sample_world_def lower_char_def testland_v3_def testland_v2_def testland_v2_upper_def
  otherland_v2_def usd_rates_def testland_row_def nameless_country_def
  testland_v2_no_population_def testland_v2_null_currency_def otherland_row_def
  valueof_v3_def valueof_v2_def


section \<open>Property access on an entry\<close>

lemma get_prop_not_nullish: "\<not> nullish v \<Longrightarrow> get_prop v k = Inr (get_prop_opt v k)"
  by (cases v) (simp_all add: get_prop_opt_def)

lemma get_prop_nullish: "nullish v \<Longrightarrow> get_prop v k = Inl TypeError"
  by (cases v) simp_all


lemma get_first_truthy: "truthy v \<Longrightarrow> \<exists>x. get_first v = Inr x"
  by (cases v) simp_all

text \<open>
  The full-replace mapper raises on no entry other than \<open>null\<close> and \<open>undefined\<close>, and
  this is the record it builds.
\<close>

lemma full_replace_fields_Inr:
  assumes "\<not> nullish country"
  shows "full_replace_fields w rs i country =
     Inr \<lparr>name = js_or (get_prop_opt (get_prop_opt country ''name'') ''common'') (JStr ''Unknown''),
          capital = (if truthy (get_prop_opt country ''capital'')
                     then (case get_first (get_prop_opt country ''capital'') of
                             Inl e \<Rightarrow> JUndefined | Inr x \<Rightarrow> x)
                     else JNull),
          region = js_or (get_prop_opt country ''region'') JNull,
          population = js_or (get_prop_opt country ''population'') (JNum 0),
          currency_code = fst (full_replace_currency w rs i (get_prop_opt country ''population'')
                                 (get_prop_opt country ''currencies'')),
          exchange_rate = fst (snd (full_replace_currency w rs i (get_prop_opt country ''population'')
                                 (get_prop_opt country ''currencies''))),
          estimated_gdp = snd (snd (full_replace_currency w rs i (get_prop_opt country ''population'')
                                 (get_prop_opt country ''currencies''))),
          flag_url = js_or (get_prop_opt (get_prop_opt country ''flags'') ''png'') JNull\<rparr>"
proof -
  obtain a b c where tr: "full_replace_currency w rs i (get_prop_opt country ''population'')
                                 (get_prop_opt country ''currencies'') = (a, b, c)"
    by (cases "full_replace_currency w rs i (get_prop_opt country ''population'')
                                 (get_prop_opt country ''currencies'')") auto
  show ?thesis
  proof (cases "truthy (get_prop_opt country ''capital'')")
    case True
    then obtain x where "get_first (get_prop_opt country ''capital'') = Inr x"
      using get_first_truthy by blast
    with True tr assms show ?thesis
      by (simp add: full_replace_fields_def then_do_def get_prop_not_nullish)
  next
    case False
    with tr assms show ?thesis
      by (simp add: full_replace_fields_def then_do_def get_prop_not_nullish)
  qed
qed

section \<open>Upstream failures\<close>

text \<open>
  When either fetch fails, the full-replace handler has not yet taken a connection: no
  statement runs and the table is as before. The answer is 503 exactly for a refused
  connection and for an upstream that answered with an error status.
\<close>

lemma fetch_failure_full_replace:
  "post_refresh_full_replace w (Failed e) exchangeResponse t = (refresh_catch_full_replace e, t)"
  "post_refresh_full_replace w (Fetched cs) (Failed e) t = (refresh_catch_full_replace e, t)"
  by (simp_all add: post_refresh_full_replace_def)

lemma refresh_catch_full_replace_status:
  "status (refresh_catch_full_replace e) =
     (if err_code e = Some ''ECONNREFUSED'' \<or> err_response e \<noteq> None then 503 else 500)"
  by (simp add: refresh_catch_full_replace_def unavailable_def internal_error_def)

lemma fetch_failure_upsert:
  "post_refresh_upsert w (Failed e) exchangeResponse s = (refresh_catch_upsert e, s)"
  "post_refresh_upsert w (Fetched cs) (Failed e) s = (refresh_catch_upsert e, s)"
  by (simp_all add: post_refresh_upsert_def)

text \<open>
  C1. A country fetch that times out: the full-replace handler leaves the table as it
  was, but it answers 500, not 503, because the timeout's code is neither
  \<open>ECONNREFUSED\<close> nor does the error carry a response. The same holds when the
  exchange-rate fetch times out, and in the upsert variant.
\<close>

theorem refresh_timeout_answers_500:
  "post_refresh_full_replace w (Failed timeout_error) exchangeResponse t = (internal_error, t)
   \<and> post_refresh_full_replace w (Fetched cs) (Failed timeout_error) t = (internal_error, t)
   \<and> post_refresh_upsert w (Failed timeout_error) exchangeResponse s = (internal_error, s)
   \<and> status internal_error = 500"
  by (simp add: post_refresh_full_replace_def post_refresh_upsert_def timeout_error_def
      refresh_catch_full_replace_def refresh_catch_upsert_def internal_error_def)


lemma full_replace_run_low:
  "post_refresh_full_replace (sample_world 0) (Fetched [testland_v3]) (Fetched usd_rates) t
     = (\<lparr>status = 201, body = RefreshedFull 1 101\<rparr>, [testland_row 500000])"
  by (simp add: post_refresh_full_replace_def sample_defs model_defs)



section \<open>The counters of a refresh\<close>

lemma upsert_loop_counts:
  "upsert_loop w rs i cs t p n = (t', Some (p', n')) \<Longrightarrow>
     p' = p + length cs \<and> n \<le> n' \<and> n' \<le> n + length cs"
proof (induction cs arbitrary: i t p n)
  case Nil
  then show ?case by simp
next
  case (Cons c cs)
  show ?case
  proof (cases "upsert_entry w rs i c t")
    case (Inr t1)
    with Cons.prems have "upsert_loop w rs (Suc i) cs t1 (Suc p) (Suc n) = (t', Some (p', n'))"
      by simp
    from Cons.IH [OF this] show ?thesis by simp
  next
    case (Inl e)
    show ?thesis
    proof (cases "get_prop c ''name''")
      case (Inl e')
      with \<open>upsert_entry w rs i c t = Inl e\<close> Cons.prems show ?thesis by simp
    next
      case (Inr nm)
      with \<open>upsert_entry w rs i c t = Inl e\<close> Cons.prems
      have "upsert_loop w rs (Suc i) cs t (Suc p) n = (t', Some (p', n'))" by simp
      from Cons.IH [OF this] show ?thesis by simp
    qed
  qed
qed

lemma full_replace_loop_count:
  "full_replace_loop w rs i cs t n = (t', Some n') \<Longrightarrow> n \<le> n' \<and> n' \<le> n + length cs"
proof (induction cs arbitrary: i t n)
  case Nil
  then show ?case by simp
next
  case (Cons c cs)
  show ?case
  proof (cases "full_replace_entry w rs i c t")
    case (Inr t1)
    with Cons.prems have "full_replace_loop w rs (Suc i) cs t1 (Suc n) = (t', Some n')"
      by simp
    from Cons.IH [OF this] show ?thesis by simp
  next
    case (Inl e)
    show ?thesis
    proof (cases "get_prop c ''name''")
      case (Inl e')
      with \<open>full_replace_entry w rs i c t = Inl e\<close> Cons.prems show ?thesis by simp
    next
      case (Inr nm)
      with \<open>full_replace_entry w rs i c t = Inl e\<close> Cons.prems
      have "full_replace_loop w rs (Suc i) cs t n = (t', Some n')" by simp
      from Cons.IH [OF this] show ?thesis by simp
    qed
  qed
qed

lemma upsert_sample_run:
  "post_refresh_upsert (sample_world 0) (Fetched [testland_v2, nameless_country])
       (Fetched usd_rates) (start_server [])
     = (\<lparr>status = 200, body = RefreshedUpsert 2 1 102\<rparr>,
        \<lparr>countries = [testland_row 500000], lastRefreshTime = Some 102\<rparr>)"
  by (simp add: post_refresh_upsert_def start_server_def sample_defs model_defs)

text \<open>
  C4. A refresh that completes reports \<open>successful \<le> total_processed\<close>, and
  \<open>total_processed\<close> is the length of the prefix taken from the upstream list, at most
  the cap of 10 (upsert variant). The full-replace variant reports its success count as
  \<open>total_countries\<close>, at most the length of its prefix, which is at most its cap of 50.
\<close>

theorem refresh_counts_bounded:
  "(post_refresh_upsert w (Fetched cs) (Fetched rs) s = (resp, s') \<and> status resp = 200 \<longrightarrow>
      (\<exists>total_processed successful stamp.
          body resp = RefreshedUpsert total_processed successful stamp
        \<and> successful \<le> total_processed
        \<and> total_processed = length (take 10 cs) \<and> total_processed \<le> 10))
   \<and> (post_refresh_full_replace w2 (Fetched cs2) (Fetched rs2) t = (resp2, t2)
         \<and> status resp2 = 201 \<longrightarrow>
      (\<exists>total_countries stamp.
          body resp2 = RefreshedFull total_countries stamp
        \<and> total_countries \<le> length (take 50 cs2) \<and> length (take 50 cs2) \<le> 50))"
proof (intro conjI impI)
  assume a: "post_refresh_upsert w (Fetched cs) (Fetched rs) s = (resp, s') \<and> status resp = 200"
  obtain tb r where l: "upsert_loop w rs 0 (take 10 cs) (countries s) 0 0 = (tb, r)"
    by (cases "upsert_loop w rs 0 (take 10 cs) (countries s) 0 0")
  show "\<exists>total_processed successful stamp.
          body resp = RefreshedUpsert total_processed successful stamp
        \<and> successful \<le> total_processed
        \<and> total_processed = length (take 10 cs) \<and> total_processed \<le> 10"
  proof (cases r)
    case None
    with a l show ?thesis by (auto simp: post_refresh_upsert_def internal_error_def)
  next
    case (Some pn)
    obtain p n where pn: "pn = (p, n)" by (cases pn)
    from upsert_loop_counts [of w rs 0 "take 10 cs" "countries s" 0 0 tb p n] l Some pn
    have "p = length (take 10 cs) \<and> n \<le> length (take 10 cs)" by simp
    with a l Some pn show ?thesis by (auto simp: post_refresh_upsert_def)
  qed
next
  assume a: "post_refresh_full_replace w2 (Fetched cs2) (Fetched rs2) t = (resp2, t2)
               \<and> status resp2 = 201"
  obtain tb r where l: "full_replace_loop w2 rs2 0 (take 50 cs2) [] 0 = (tb, r)"
    by (cases "full_replace_loop w2 rs2 0 (take 50 cs2) [] 0")
  show "\<exists>total_countries stamp.
          body resp2 = RefreshedFull total_countries stamp
        \<and> total_countries \<le> length (take 50 cs2) \<and> length (take 50 cs2) \<le> 50"
  proof (cases r)
    case None
    with a l show ?thesis by (auto simp: post_refresh_full_replace_def internal_error_def)
  next
    case (Some n)
    from full_replace_loop_count [of w2 rs2 0 "take 50 cs2" "[]" 0 tb n] l Some
    have "n \<le> length (take 50 cs2)" by simp
    with a l Some show ?thesis by (auto simp: post_refresh_full_replace_def)
  qed
qed

theorem refresh_counts_bounded_witness:
  "(post_refresh_upsert (sample_world 0) (Fetched [testland_v2, nameless_country])
        (Fetched usd_rates) (start_server [])
      = (\<lparr>status = 200, body = RefreshedUpsert 2 1 102\<rparr>,
         \<lparr>countries = [testland_row 500000], lastRefreshTime = Some 102\<rparr>)
     \<and> status \<lparr>status = 200, body = RefreshedUpsert 2 1 102\<rparr> = 200)
   \<and> (\<exists>total_processed successful stamp.
          body \<lparr>status = 200, body = RefreshedUpsert 2 1 102\<rparr>
            = RefreshedUpsert total_processed successful stamp
        \<and> successful \<le> total_processed
        \<and> total_processed = length (take 10 [testland_v2, nameless_country])
        \<and> total_processed \<le> 10)
   \<and> (post_refresh_full_replace (sample_world 0) (Fetched [testland_v3]) (Fetched usd_rates) []
      = (\<lparr>status = 201, body = RefreshedFull 1 101\<rparr>, [testland_row 500000])
     \<and> status \<lparr>status = 201, body = RefreshedFull 1 101\<rparr> = 201)
   \<and> (\<exists>total_countries stamp.
          body \<lparr>status = 201, body = RefreshedFull 1 101\<rparr> = RefreshedFull total_countries stamp
        \<and> total_countries \<le> length (take 50 [testland_v3])
        \<and> length (take 50 [testland_v3]) \<le> 50)"
proof -
  have u: "post_refresh_upsert (sample_world 0) (Fetched [testland_v2, nameless_country])
        (Fetched usd_rates) (start_server [])
      = (\<lparr>status = 200, body = RefreshedUpsert 2 1 102\<rparr>,
         \<lparr>countries = [testland_row 500000], lastRefreshTime = Some 102\<rparr>)
     \<and> status \<lparr>status = 200, body = RefreshedUpsert 2 1 102\<rparr> = 200"
    by (simp add: upsert_sample_run)
  have f: "post_refresh_full_replace (sample_world 0) (Fetched [testland_v3]) (Fetched usd_rates) []
      = (\<lparr>status = 201, body = RefreshedFull 1 101\<rparr>, [testland_row 500000])
     \<and> status \<lparr>status = 201, body = RefreshedFull 1 101\<rparr> = 201"
    by (simp add: full_replace_run_low)
  from refresh_counts_bounded
    [of "sample_world 0" "[testland_v2, nameless_country]" usd_rates "start_server []"
        "\<lparr>status = 200, body = RefreshedUpsert 2 1 102\<rparr>"
        "\<lparr>countries = [testland_row 500000], lastRefreshTime = Some 102\<rparr>"
        "sample_world 0" "[testland_v3]" usd_rates "[]"
        "\<lparr>status = 201, body = RefreshedFull 1 101\<rparr>" "[testland_row 500000]"]
    u f
  show ?thesis by blast
qed

section \<open>Sort keys\<close>

lemma get_countries_upsert_sort:
  "fst (get_countries_upsert region_q currency_q sort_q) =
     fst (where_clause region_q currency_q) @
       (if sort_q = JStr ''gdp_desc'' then '' ORDER BY estimated_gdp DESC''
        else if sort_q = JStr ''gdp_asc'' then '' ORDER BY estimated_gdp ASC''
        else if sort_q = JStr ''population_desc'' then '' ORDER BY population DESC''
        else '' ORDER BY name ASC'')"
  by (simp add: get_countries_upsert_def split: prod.splits)

text \<open>
  C5. The sort key \<open>gdp_asc\<close> sent to the full-replace variant of \<open>GET /countries\<close>
  is not recognised there: the query is ordered by name, while the upsert variant of the
  same handler orders it by \<open>estimated_gdp\<close> ascending.
\<close>

theorem gdp_asc_ignored_by_full_replace:
  "get_countries_full_replace JUndefined JUndefined (JStr ''gdp_asc'')
     = (''SELECT * FROM countries WHERE 1=1 ORDER BY name ASC'', [])
   \<and> get_countries_upsert JUndefined JUndefined (JStr ''gdp_asc'')
     = (''SELECT * FROM countries WHERE 1=1 ORDER BY estimated_gdp ASC'', [])"
  by (simp add: get_countries_full_replace_def get_countries_upsert_def where_clause_def)

section \<open>Defaults\<close>

text \<open>
  C6. For an entry that has neither a name nor a population, the upsert mapper binds
  \<open>undefined\<close> for both, where the full-replace mapper binds the sentinel
  \<open>Unknown\<close> and 0; with a driver that refuses \<open>undefined\<close> the entry is counted
  as failed and nothing is stored for it.
\<close>

theorem upsert_mapper_has_no_defaults:
  "upsert_fields w exchangeRates i nameless_country
     = Inr \<lparr>name = JUndefined, capital = JNull, region = JStr ''Europe'',
            population = JUndefined, currency_code = JNull, exchange_rate = JNull,
            estimated_gdp = JNull, flag_url = JNull\<rparr>
   \<and> full_replace_fields w exchangeRates i nameless_country
     = Inr \<lparr>name = JStr ''Unknown'', capital = JNull, region = JStr ''Europe'',
            population = JNum 0, currency_code = JNull, exchange_rate = JNull,
            estimated_gdp = JNull, flag_url = JNull\<rparr>
   \<and> post_refresh_upsert (sample_world 0) (Fetched [nameless_country]) (Fetched usd_rates)
        (start_server [])
     = (\<lparr>status = 200, body = RefreshedUpsert 1 0 101\<rparr>,
        \<lparr>countries = [], lastRefreshTime = Some 101\<rparr>)"
  by (simp add: post_refresh_upsert_def start_server_def sample_defs model_defs)


section \<open>The reported refresh time\<close>

lemma post_refresh_upsert_lastRefreshTime:
  assumes "post_refresh_upsert w cr er s = (resp, s')"
  shows "(status resp = 200 \<longrightarrow>
           (\<exists>p n stamp. body resp = RefreshedUpsert p n stamp \<and> lastRefreshTime s' = Some stamp))
       \<and> (status resp \<noteq> 200 \<longrightarrow> lastRefreshTime s' = lastRefreshTime s)"
proof (cases cr)
  case (Failed e)
  with assms show ?thesis
    by (auto simp: post_refresh_upsert_def refresh_catch_upsert_def unavailable_def
        internal_error_def split: if_splits)
next
  case (Fetched cs)
  show ?thesis
  proof (cases er)
    case (Failed e)
    with assms Fetched show ?thesis
      by (auto simp: post_refresh_upsert_def refresh_catch_upsert_def unavailable_def
          internal_error_def split: if_splits)
  next
    case er: (Fetched rs)
    obtain t' res where l: "upsert_loop w rs 0 (take 10 cs) (countries s) 0 0 = (t', res)"
      by (cases "upsert_loop w rs 0 (take 10 cs) (countries s) 0 0")
    show ?thesis
    proof (cases res)
      case None
      with assms Fetched er l show ?thesis
        by (auto simp: post_refresh_upsert_def internal_error_def)
    next
      case (Some pn)
      with assms Fetched er l show ?thesis
        by (cases pn) (auto simp: post_refresh_upsert_def)
    qed
  qed
qed

text \<open>
  C10. In the upsert variant \<open>lastRefreshTime\<close> is \<open>null\<close> when the process starts;
  on an empty table \<open>GET /status\<close> reports \<open>lastRefreshTime\<close>; a refresh that
  completes sets it to its completion time (the \<open>last_refreshed_at\<close> of its answer)
  and a refresh that fails leaves it as it was. So on the same stored data, an empty
  table, the report is a time after a refresh of an empty upstream list and \<open>null\<close>
  after a restart.
\<close>

theorem status_falls_back_to_lastRefreshTime:
  "lastRefreshTime (start_server t) = None
   \<and> (countries s = [] \<longrightarrow>
        get_status_upsert s = \<lparr>status = 200, body = StatusBody 0 (lastRefreshTime s)\<rparr>)
   \<and> (post_refresh_upsert w cr er s = (resp, s') \<and> status resp = 200 \<longrightarrow>
        (\<exists>p n stamp. body resp = RefreshedUpsert p n stamp \<and> lastRefreshTime s' = Some stamp))
   \<and> (post_refresh_upsert w cr er s = (resp, s') \<and> status resp \<noteq> 200 \<longrightarrow>
        lastRefreshTime s' = lastRefreshTime s)
   \<and> get_status_upsert (snd (post_refresh_upsert w (Fetched []) (Fetched rs) (start_server [])))
        = \<lparr>status = 200, body = StatusBody 0 (Some (clock w 0))\<rparr>
   \<and> get_status_upsert (start_server []) = \<lparr>status = 200, body = StatusBody 0 None\<rparr>"
proof (intro conjI impI)
  show "lastRefreshTime (start_server t) = None" by (simp add: start_server_def)
  show "get_status_upsert s = \<lparr>status = 200, body = StatusBody 0 (lastRefreshTime s)\<rparr>"
    if "countries s = []"
    using that by (simp add: get_status_upsert_def max_last_refreshed_at_def)
  show "\<exists>p n stamp. body resp = RefreshedUpsert p n stamp \<and> lastRefreshTime s' = Some stamp"
    if "post_refresh_upsert w cr er s = (resp, s') \<and> status resp = 200"
    using that post_refresh_upsert_lastRefreshTime by blast
  show "lastRefreshTime s' = lastRefreshTime s"
    if "post_refresh_upsert w cr er s = (resp, s') \<and> status resp \<noteq> 200"
    using that post_refresh_upsert_lastRefreshTime by blast
  show "get_status_upsert (snd (post_refresh_upsert w (Fetched []) (Fetched rs) (start_server [])))
        = \<lparr>status = 200, body = StatusBody 0 (Some (clock w 0))\<rparr>"
    by (simp add: post_refresh_upsert_def start_server_def get_status_upsert_def
        max_last_refreshed_at_def)
  show "get_status_upsert (start_server []) = \<lparr>status = 200, body = StatusBody 0 None\<rparr>"
    by (simp add: start_server_def get_status_upsert_def max_last_refreshed_at_def)
qed

lemma empty_refresh_sample:
  "post_refresh_upsert (sample_world 0) (Fetched []) (Fetched usd_rates) (start_server [])
     = (\<lparr>status = 200, body = RefreshedUpsert 0 0 100\<rparr>,
        \<lparr>countries = [], lastRefreshTime = Some 100\<rparr>)"
  by (simp add: post_refresh_upsert_def start_server_def sample_defs)

lemma timeout_refresh_sample:
  "post_refresh_upsert (sample_world 0) (Failed timeout_error) (Fetched usd_rates)
       \<lparr>countries = [], lastRefreshTime = Some 100\<rparr>
     = (internal_error, \<lparr>countries = [], lastRefreshTime = Some 100\<rparr>)"
  by (simp add: post_refresh_upsert_def timeout_error_def refresh_catch_upsert_def)

theorem status_falls_back_to_lastRefreshTime_witness:
  "countries \<lparr>countries = [], lastRefreshTime = Some 100\<rparr> = []
   \<and> get_status_upsert \<lparr>countries = [], lastRefreshTime = Some 100\<rparr>
       = \<lparr>status = 200, body = StatusBody 0 (Some 100)\<rparr>
   \<and> (post_refresh_upsert (sample_world 0) (Fetched []) (Fetched usd_rates) (start_server [])
         = (\<lparr>status = 200, body = RefreshedUpsert 0 0 100\<rparr>,
            \<lparr>countries = [], lastRefreshTime = Some 100\<rparr>)
       \<and> status \<lparr>status = 200, body = RefreshedUpsert 0 0 100\<rparr> = 200)
   \<and> (\<exists>p n stamp. body \<lparr>status = 200, body = RefreshedUpsert 0 0 100\<rparr> = RefreshedUpsert p n stamp
         \<and> lastRefreshTime \<lparr>countries = [], lastRefreshTime = Some 100\<rparr> = Some stamp)
   \<and> (post_refresh_upsert (sample_world 0) (Failed timeout_error) (Fetched usd_rates)
           \<lparr>countries = [], lastRefreshTime = Some 100\<rparr>
         = (internal_error, \<lparr>countries = [], lastRefreshTime = Some 100\<rparr>)
       \<and> status internal_error \<noteq> 200)"
proof -
  have a: "countries \<lparr>countries = [], lastRefreshTime = Some 100\<rparr> = []" by simp
  have b: "post_refresh_upsert (sample_world 0) (Fetched []) (Fetched usd_rates) (start_server [])
         = (\<lparr>status = 200, body = RefreshedUpsert 0 0 100\<rparr>,
            \<lparr>countries = [], lastRefreshTime = Some 100\<rparr>)
       \<and> status \<lparr>status = 200, body = RefreshedUpsert 0 0 100\<rparr> = 200"
    by (simp add: empty_refresh_sample)
  have c: "post_refresh_upsert (sample_world 0) (Failed timeout_error) (Fetched usd_rates)
           \<lparr>countries = [], lastRefreshTime = Some 100\<rparr>
         = (internal_error, \<lparr>countries = [], lastRefreshTime = Some 100\<rparr>)
       \<and> status internal_error \<noteq> 200"
    by (simp add: timeout_refresh_sample) (simp add: internal_error_def)
  from status_falls_back_to_lastRefreshTime
         [of "[]" "\<lparr>countries = [], lastRefreshTime = Some 100\<rparr>"] a
  have 1: "get_status_upsert \<lparr>countries = [], lastRefreshTime = Some 100\<rparr>
       = \<lparr>status = 200, body = StatusBody 0 (Some 100)\<rparr>"
    by simp
  from status_falls_back_to_lastRefreshTime
         [of "[]" "start_server []" "sample_world 0" "Fetched []" "Fetched usd_rates"
             "\<lparr>status = 200, body = RefreshedUpsert 0 0 100\<rparr>"
             "\<lparr>countries = [], lastRefreshTime = Some 100\<rparr>"] b
  have 2: "\<exists>p n stamp. body \<lparr>status = 200, body = RefreshedUpsert 0 0 100\<rparr> = RefreshedUpsert p n stamp
         \<and> lastRefreshTime \<lparr>countries = [], lastRefreshTime = Some 100\<rparr> = Some stamp"
    by blast
  from a 1 b 2 c show ?thesis by blast
qed


section \<open>Doubles\<close>












section \<open>Rows stored by a full-replace refresh\<close>











section \<open>Lookup and deletion by name\<close>

lemma filter_matches_none:
  "filter (name_matches w n) (filter (\<lambda>r. \<not> name_matches w n r) t) = []"
  by (induction t) simp_all

text \<open>
  C7. After a \<open>DELETE /countries/:name\<close> that answered 204, \<open>GET /countries/:name\<close>
  answers 404; for a name (a non-empty path segment) that the database equates with
  the name of no stored row, \<open>GET\<close> answers 404; and an answer of 200 always carries a
  stored row whose name the database equates with the requested one. This holds
  whatever comparison of names the server applies.
\<close>

theorem delete_then_get_not_found:
  "(delete_country_by_name w n t = (resp, t') \<and> status resp = 204 \<longrightarrow>
       get_country_by_name w n t' = not_found)
   \<and> (n \<noteq> [] \<and> (\<forall>r\<in>set t. \<not> name_matches w (JStr n) r) \<longrightarrow>
       get_country_by_name w n t = not_found)
   \<and> status not_found = 404
   \<and> (status (get_country_by_name w n t) = 200 \<longrightarrow>
       (\<exists>r\<in>set t. name_matches w (JStr n) r
           \<and> body (get_country_by_name w n t) = CountryBody r))"
proof (intro conjI impI)
  assume a: "delete_country_by_name w n t = (resp, t') \<and> status resp = 204"
  then have n: "n \<noteq> []"
    by (auto simp: delete_country_by_name_def name_required_def)
  with a have "t' = filter (\<lambda>r. \<not> name_matches w (JStr n) r) t"
    by (auto simp: delete_country_by_name_def Let_def split: if_splits)
  with n show "get_country_by_name w n t' = not_found"
    by (simp add: get_country_by_name_def filter_matches_none)
next
  assume a: "n \<noteq> [] \<and> (\<forall>r\<in>set t. \<not> name_matches w (JStr n) r)"
  then have "filter (name_matches w (JStr n)) t = []"
    by (auto simp: filter_empty_conv)
  with a show "get_country_by_name w n t = not_found"
    by (simp add: get_country_by_name_def)
next
  show "status not_found = 404" by (simp add: not_found_def)
next
  assume a: "status (get_country_by_name w n t) = 200"
  show "\<exists>r\<in>set t. name_matches w (JStr n) r
           \<and> body (get_country_by_name w n t) = CountryBody r"
  proof (cases "filter (name_matches w (JStr n)) t")
    case Nil
    with a show ?thesis
      by (auto simp: get_country_by_name_def name_required_def not_found_def split: if_splits)
  next
    case (Cons r rs)
    then have "r \<in> set (filter (name_matches w (JStr n)) t)" by simp
    then have "r \<in> set t" "name_matches w (JStr n) r" by auto
    moreover from a Cons have "body (get_country_by_name w n t) = CountryBody r"
      by (auto simp: get_country_by_name_def name_required_def split: if_splits)
    ultimately show ?thesis by blast
  qed
qed

lemma delete_testland_lower:
  "delete_country_by_name (sample_world 0) ''testland'' [testland_row 500000, otherland_row]
     = (\<lparr>status = 204, body = NoBody\<rparr>, [otherland_row])"
  by (simp add: delete_country_by_name_def sample_defs model_defs)

lemma get_testland_lower:
  "get_country_by_name (sample_world x) ''testland'' [testland_row g]
     = \<lparr>status = 200, body = CountryBody (testland_row g)\<rparr>"
  by (simp add: get_country_by_name_def sample_defs model_defs)

theorem delete_then_get_not_found_witness:
  "(delete_country_by_name (sample_world 0) ''testland'' [testland_row 500000, otherland_row]
        = (\<lparr>status = 204, body = NoBody\<rparr>, [otherland_row])
      \<and> status \<lparr>status = 204, body = NoBody\<rparr> = 204)
   \<and> get_country_by_name (sample_world 0) ''testland'' [otherland_row] = not_found
   \<and> (''Zedland'' \<noteq> [] \<and> \<not> name_matches (sample_world 0) (JStr ''Zedland'') (testland_row 500000))
   \<and> get_country_by_name (sample_world 0) ''Zedland'' [testland_row 500000] = not_found
   \<and> status (get_country_by_name (sample_world 0) ''testland'' [testland_row 500000]) = 200
   \<and> (\<exists>r\<in>set [testland_row 500000]. name_matches (sample_world 0) (JStr ''testland'') r
         \<and> body (get_country_by_name (sample_world 0) ''testland'' [testland_row 500000])
             = CountryBody r)"
proof -
  have d: "delete_country_by_name (sample_world 0) ''testland'' [testland_row 500000, otherland_row]
        = (\<lparr>status = 204, body = NoBody\<rparr>, [otherland_row])
      \<and> status \<lparr>status = 204, body = NoBody\<rparr> = 204"
    by (simp add: delete_testland_lower)
  have o: "''Zedland'' \<noteq> []
             \<and> \<not> name_matches (sample_world 0) (JStr ''Zedland'') (testland_row 500000)"
    by (simp add: sample_defs model_defs)
  then have o': "''Zedland'' \<noteq> []
      \<and> (\<forall>r\<in>set [testland_row 500000]. \<not> name_matches (sample_world 0) (JStr ''Zedland'') r)"
    by simp
  have g: "status (get_country_by_name (sample_world 0) ''testland'' [testland_row 500000]) = 200"
    by (simp add: get_testland_lower)
  from delete_then_get_not_found
         [of "sample_world 0" "''testland''" "[testland_row 500000, otherland_row]"
             "\<lparr>status = 204, body = NoBody\<rparr>" "[otherland_row]"] d
  have 1: "get_country_by_name (sample_world 0) ''testland'' [otherland_row] = not_found"
    by blast
  from delete_then_get_not_found [of "sample_world 0" "''Zedland''" "[testland_row 500000]"] o'
  have 2: "get_country_by_name (sample_world 0) ''Zedland'' [testland_row 500000] = not_found"
    by blast
  from delete_then_get_not_found [of "sample_world 0" "''testland''" "[testland_row 500000]"] g
  have 3: "\<exists>r\<in>set [testland_row 500000]. name_matches (sample_world 0) (JStr ''testland'') r
         \<and> body (get_country_by_name (sample_world 0) ''testland'' [testland_row 500000])
             = CountryBody r"
    by blast
  from d 1 o 2 g 3 show ?thesis by blast
qed


section \<open>What one upsert step does to the table\<close>

lemma upsert_fields_name:
  "upsert_fields w rs i c = Inr f \<Longrightarrow> get_prop c ''name'' = Inr (name f)"
  by (auto simp: upsert_fields_def then_do_def split: sum.splits prod.splits)

lemma upsert_fields_name_opt:
  "upsert_fields w rs i c = Inr f \<Longrightarrow> get_prop_opt c ''name'' = name f"
  by (drule upsert_fields_name) (simp add: get_prop_opt_def)



lemma update_row_other: "\<not> name_matches w (name f) r \<Longrightarrow> update_row w f now r = r"
  by (simp add: update_row_def)


lemma upsert_entry_cases:
  assumes "upsert_entry w rs i c t = Inr t'"
  obtains f where "upsert_fields w rs i c = Inr f"
      and "filter (name_matches w (name f)) t \<noteq> []"
      and "t' = map (update_row w f (db_clock w i)) t"
    | f where "upsert_fields w rs i c = Inr f"
      and "filter (name_matches w (name f)) t = []" and "name f \<noteq> JNull"
      and "t' = t @ [\<lparr>cols = store_fields w f, last_refreshed_at = db_clock w i\<rparr>]"
proof (cases "upsert_fields w rs i c")
  case (Inl e)
  with assms show ?thesis by (simp add: upsert_entry_def then_do_def)
next
  case (Inr f)
  show ?thesis
  proof (cases "filter (name_matches w (name f)) t = []")
    case True
    with assms Inr
    have "t' = t @ [\<lparr>cols = store_fields w f, last_refreshed_at = db_clock w i\<rparr>]"
      "name f \<noteq> JNull"
      by (auto simp: upsert_entry_def then_do_def db_insert_def split: if_splits)
    with Inr True that(2) show ?thesis by blast
  next
    case False
    with assms Inr have "t' = map (update_row w f (db_clock w i)) t"
      by (auto simp: upsert_entry_def then_do_def db_update_def split: if_splits)
    with Inr False that(1) show ?thesis by blast
  qed
qed

lemma upsert_entry_length:
  assumes "upsert_entry w rs i c t = Inr t'"
  shows "length t \<le> length t'"
  using assms by (cases rule: upsert_entry_cases) simp_all

text \<open>A row that the entry's name does not select stays where it is, as it is.\<close>

lemma upsert_entry_frame:
  assumes "upsert_entry w rs i c t = Inr t'" and "k < length t"
      and "\<not> name_matches w (get_prop_opt c ''name'') (t ! k)"
  shows "t' ! k = t ! k"
  using assms(1)
proof (cases rule: upsert_entry_cases)
  case (1 f)
  with assms(3) have "\<not> name_matches w (name f) (t ! k)"
    by (simp add: upsert_fields_name_opt)
  with 1(3) assms(2) show ?thesis by (simp add: update_row_other)
next
  case (2 f)
  with assms(2) show ?thesis by (simp add: nth_append)
qed

section \<open>The upsert loop\<close>

lemma upsert_loop_length:
  "upsert_loop w rs i cs t p n = (t', res) \<Longrightarrow> length t \<le> length t'"
proof (induction cs arbitrary: i t p n)
  case Nil
  then show ?case by simp
next
  case (Cons c cs)
  show ?case
  proof (cases "upsert_entry w rs i c t")
    case (Inr t1)
    with Cons.prems
    have "upsert_loop w rs (Suc i) cs t1 (Suc p) (Suc n) = (t', res)" by simp
    from Cons.IH [OF this] upsert_entry_length [OF Inr] show ?thesis by simp
  next
    case (Inl e)
    show ?thesis
    proof (cases "get_prop c ''name''")
      case (Inl e')
      with \<open>upsert_entry w rs i c t = Inl e\<close> Cons.prems show ?thesis by simp
    next
      case (Inr x)
      with \<open>upsert_entry w rs i c t = Inl e\<close> Cons.prems
      have "upsert_loop w rs (Suc i) cs t (Suc p) n = (t', res)" by simp
      from Cons.IH [OF this] show ?thesis .
    qed
  qed
qed

lemma upsert_loop_frame:
  "upsert_loop w rs i cs t p n = (t', res) \<Longrightarrow> k < length t \<Longrightarrow>
   \<forall>d\<in>set cs. \<not> name_matches w (get_prop_opt d ''name'') (t ! k) \<Longrightarrow>
     t' ! k = t ! k"
proof (induction cs arbitrary: i t p n)
  case Nil
  then show ?case by simp
next
  case (Cons c cs)
  from Cons.prems(3) have c: "\<not> name_matches w (get_prop_opt c ''name'') (t ! k)"
    and rest: "\<forall>d\<in>set cs. \<not> name_matches w (get_prop_opt d ''name'') (t ! k)" by simp_all
  show ?case
  proof (cases "upsert_entry w rs i c t")
    case (Inr t1)
    with Cons.prems(1)
    have l: "upsert_loop w rs (Suc i) cs t1 (Suc p) (Suc n) = (t', res)" by simp
    have same: "t1 ! k = t ! k" using Inr Cons.prems(2) c by (rule upsert_entry_frame)
    have k1: "k < length t1" using upsert_entry_length [OF Inr] Cons.prems(2) by simp
    from rest same have "\<forall>d\<in>set cs. \<not> name_matches w (get_prop_opt d ''name'') (t1 ! k)"
      by simp
    from Cons.IH [OF l k1 this] same show ?thesis by simp
  next
    case (Inl e)
    show ?thesis
    proof (cases "get_prop c ''name''")
      case (Inl e')
      with \<open>upsert_entry w rs i c t = Inl e\<close> Cons.prems(1) show ?thesis by simp
    next
      case (Inr x)
      with \<open>upsert_entry w rs i c t = Inl e\<close> Cons.prems(1)
      have "upsert_loop w rs (Suc i) cs t (Suc p) n = (t', res)" by simp
      from Cons.IH [OF this Cons.prems(2) rest] show ?thesis .
    qed
  qed
qed

lemma post_refresh_upsert_table:
  "countries (snd (post_refresh_upsert w (Fetched cs) (Fetched rs) s))
     = fst (upsert_loop w rs 0 (take 10 cs) (countries s) 0 0)"
  by (auto simp: post_refresh_upsert_def split: prod.splits option.splits)

text \<open>
  C9. A refresh of the upsert variant, whatever its outcome, never shortens the table;
  and a stored row whose name the database equates with the name of no entry of the
  processed batch is still stored afterwards, at its place and unchanged. This holds
  whatever comparison of names the server applies.
\<close>

theorem upsert_refresh_keeps_rows:
  "length (countries s) \<le> length (countries (snd (post_refresh_upsert w cr er s)))
   \<and> (k < length (countries s)
        \<and> (\<forall>d\<in>set (take 10 cs).
               \<not> name_matches w (get_prop_opt d ''name'') (countries s ! k))
      \<longrightarrow> countries (snd (post_refresh_upsert w (Fetched cs) er s)) ! k = countries s ! k
          \<and> countries s ! k \<in> set (countries (snd (post_refresh_upsert w (Fetched cs) er s))))"
proof (intro conjI impI)
  show len: "length (countries s) \<le> length (countries (snd (post_refresh_upsert w cr er s)))"
    for cr
  proof (cases cr)
    case (Failed e)
    then show ?thesis by (simp add: post_refresh_upsert_def)
  next
    case (Fetched cs')
    show ?thesis
    proof (cases er)
      case (Failed e)
      with Fetched show ?thesis by (simp add: post_refresh_upsert_def)
    next
      case (Fetched rs)
      obtain t' res where "upsert_loop w rs 0 (take 10 cs') (countries s) 0 0 = (t', res)"
        by (cases "upsert_loop w rs 0 (take 10 cs') (countries s) 0 0")
      with upsert_loop_length [OF this] Fetched \<open>cr = Fetched cs'\<close> show ?thesis
        by (simp add: post_refresh_upsert_table)
    qed
  qed
  assume a: "k < length (countries s)
        \<and> (\<forall>d\<in>set (take 10 cs).
               \<not> name_matches w (get_prop_opt d ''name'') (countries s ! k))"
  let ?final = "countries (snd (post_refresh_upsert w (Fetched cs) er s))"
  show same: "?final ! k = countries s ! k"
  proof (cases er)
    case (Failed e)
    then show ?thesis by (simp add: post_refresh_upsert_def)
  next
    case (Fetched rs)
    obtain t' res where l: "upsert_loop w rs 0 (take 10 cs) (countries s) 0 0 = (t', res)"
      by (cases "upsert_loop w rs 0 (take 10 cs) (countries s) 0 0")
    from upsert_loop_frame [OF l] a l Fetched show ?thesis
      by (simp add: post_refresh_upsert_table)
  qed
  from a len [of "Fetched cs"] have "k < length ?final" by simp
  then have "?final ! k \<in> set ?final" by simp
  with same show "countries s ! k \<in> set ?final" by simp
qed


section \<open>The rows of a name\<close>










lemma upsert_upper_run:
  "countries (snd (post_refresh_upsert (sample_world 0)
      (Fetched [testland_v2, testland_v2_upper, otherland_v2]) (Fetched usd_rates)
      \<lparr>countries = [otherland_row], lastRefreshTime = None\<rparr>))
     = [\<lparr>cols = \<lparr>name = JStr ''Otherland'', capital = JNull, region = JNull,
              population = JNum 7, currency_code = JNull, exchange_rate = JNull,
              estimated_gdp = JNull, flag_url = JNull\<rparr>,
         last_refreshed_at = 102\<rparr>,
        \<lparr>cols = \<lparr>name = JStr ''Testland'', capital = JStr ''New City'', region = JNull,
              population = JNum 2500, currency_code = JNull, exchange_rate = JNull,
              estimated_gdp = JNull, flag_url = JNull\<rparr>,
         last_refreshed_at = 101\<rparr>]"
  by (simp add: post_refresh_upsert_def sample_defs model_defs)



theorem upsert_refresh_keeps_rows_witness:
  "(0 < length (countries \<lparr>countries = [otherland_row], lastRefreshTime = None\<rparr>)
     \<and> countries \<lparr>countries = [otherland_row], lastRefreshTime = None\<rparr> ! 0 = otherland_row
     \<and> take 10 [testland_v2, testland_v2_upper] = [testland_v2, testland_v2_upper]
     \<and> \<not> name_matches (sample_world 0) (get_prop_opt testland_v2 ''name'') otherland_row
     \<and> \<not> name_matches (sample_world 0) (get_prop_opt testland_v2_upper ''name'') otherland_row)
   \<and> length (countries \<lparr>countries = [otherland_row], lastRefreshTime = None\<rparr>)
      \<le> length (countries (snd (post_refresh_upsert (sample_world 0)
             (Fetched [testland_v2, testland_v2_upper]) (Fetched usd_rates)
             \<lparr>countries = [otherland_row], lastRefreshTime = None\<rparr>)))
   \<and> countries (snd (post_refresh_upsert (sample_world 0)
             (Fetched [testland_v2, testland_v2_upper]) (Fetched usd_rates)
             \<lparr>countries = [otherland_row], lastRefreshTime = None\<rparr>)) ! 0 = otherland_row
   \<and> otherland_row \<in> set (countries (snd (post_refresh_upsert (sample_world 0)
             (Fetched [testland_v2, testland_v2_upper]) (Fetched usd_rates)
             \<lparr>countries = [otherland_row], lastRefreshTime = None\<rparr>)))"
proof -
  let ?w = "sample_world 0"
  let ?s = "\<lparr>countries = [otherland_row], lastRefreshTime = None\<rparr>"
  have h': "0 < length (countries ?s)
     \<and> countries ?s ! 0 = otherland_row
     \<and> take 10 [testland_v2, testland_v2_upper] = [testland_v2, testland_v2_upper]
     \<and> \<not> name_matches ?w (get_prop_opt testland_v2 ''name'') otherland_row
     \<and> \<not> name_matches ?w (get_prop_opt testland_v2_upper ''name'') otherland_row"
    by (simp add: sample_defs model_defs)
  then have h: "0 < length (countries ?s)
        \<and> (\<forall>d\<in>set (take 10 [testland_v2, testland_v2_upper]).
               \<not> name_matches ?w (get_prop_opt d ''name'') (countries ?s ! 0))"
    by simp
  from upsert_refresh_keeps_rows
         [of ?s ?w "Fetched [testland_v2, testland_v2_upper]" "Fetched usd_rates" 0
             "[testland_v2, testland_v2_upper]"] h
  have c: "length (countries ?s)
      \<le> length (countries (snd (post_refresh_upsert ?w
             (Fetched [testland_v2, testland_v2_upper]) (Fetched usd_rates) ?s)))
   \<and> countries (snd (post_refresh_upsert ?w
             (Fetched [testland_v2, testland_v2_upper]) (Fetched usd_rates) ?s)) ! 0
       = countries ?s ! 0
   \<and> countries ?s ! 0 \<in> set (countries (snd (post_refresh_upsert ?w
             (Fetched [testland_v2, testland_v2_upper]) (Fetched usd_rates) ?s)))"
    by blast
  with h' show ?thesis by simp
qed


section \<open>Exchange rate and estimated GDP of a mapped record\<close>

lemma of_num_not_null: "of_num a \<noteq> JNull"
  by (cases a) simp_all

lemma num_div_NaN: "num_div w a NaN = NaN"
  by (cases a) simp_all

lemma truthy_not_null: "truthy v \<Longrightarrow> v \<noteq> JNull \<and> v \<noteq> JUndefined"
  by (cases v) simp_all

text \<open>
  For a currency code that is absent, or that is neither a key of the fetched rate table
  nor the name of a member of \<open>Object.prototype\<close>, both mappers bind \<open>null\<close> for the
  rate and for the GDP; and the GDP is \<open>null\<close> whenever the code or the rate is absent.
\<close>

lemma full_replace_currency_nulls:
  assumes "full_replace_currency w rs i pop cur = (a, b, c)"
  shows "(nullish a \<or> rate_lookup w rs a = JUndefined \<longrightarrow> b = JNull \<and> c = JNull)
       \<and> (nullish a \<or> b = JNull \<longrightarrow> c = JNull)"
  using assms
  by (auto simp: full_replace_currency_def Let_def of_num_not_null
           split: if_splits list.splits)

lemma full_replace_fields_nulls:
  assumes "full_replace_fields w rs i country = Inr f"
  shows "(nullish (currency_code f) \<or> rate_lookup w rs (currency_code f) = JUndefined \<longrightarrow>
            exchange_rate f = JNull \<and> estimated_gdp f = JNull)
       \<and> (nullish (currency_code f) \<or> exchange_rate f = JNull \<longrightarrow> estimated_gdp f = JNull)"
proof -
  have nn: "\<not> nullish country"
  proof
    assume "nullish country"
    then have "get_prop country ''currencies'' = Inl TypeError" by (rule get_prop_nullish)
    with assms show False by (simp add: full_replace_fields_def then_do_def)
  qed
  obtain a b c where tr: "full_replace_currency w rs i (get_prop_opt country ''population'')
                                 (get_prop_opt country ''currencies'') = (a, b, c)"
    by (cases "full_replace_currency w rs i (get_prop_opt country ''population'')
                                 (get_prop_opt country ''currencies'')") auto
  from full_replace_fields_Inr [OF nn, of w rs i] assms tr
  have "currency_code f = a" "exchange_rate f = b" "estimated_gdp f = c" by auto
  with full_replace_currency_nulls [OF tr] show ?thesis by simp
qed

lemma upsert_currency_nulls:
  assumes "upsert_currency w rs i pop cur = Inr (a, b, c)"
  shows "(nullish a \<or> rate_lookup w rs a = JUndefined \<longrightarrow> b = JNull \<and> c = JNull)
       \<and> (nullish a \<or> b = JNull \<longrightarrow> c = JNull)"
proof (cases "truthy cur \<and> js_gt0 w (get_prop_opt cur ''length'')")
  case False
  with assms show ?thesis by (auto simp: upsert_currency_def)
next
  case True
  with assms obtain c0 where c0: "get_first cur = Inr c0"
    by (cases "get_first cur") (auto simp: upsert_currency_def then_do_def)
  with assms True have code: "get_prop c0 ''code'' = Inr a"
    by (cases "get_prop c0 ''code''")
       (auto simp: upsert_currency_def then_do_def Let_def split: if_splits)
  show ?thesis
  proof (cases "truthy a \<and> truthy (rate_lookup w rs a)")
    case False
    with assms True c0 code show ?thesis
      by (auto simp: upsert_currency_def then_do_def)
  next
    case t: True
    then have "\<not> nullish a" by (cases a) simp_all
    moreover from t have "rate_lookup w rs a \<noteq> JUndefined \<and> rate_lookup w rs a \<noteq> JNull"
      using truthy_not_null by blast
    ultimately show ?thesis
      using assms True c0 code t
      by (auto simp: upsert_currency_def then_do_def Let_def)
  qed
qed

lemma upsert_fields_nulls:
  assumes "upsert_fields w rs i country = Inr f"
  shows "(nullish (currency_code f) \<or> rate_lookup w rs (currency_code f) = JUndefined \<longrightarrow>
            exchange_rate f = JNull \<and> estimated_gdp f = JNull)
       \<and> (nullish (currency_code f) \<or> exchange_rate f = JNull \<longrightarrow> estimated_gdp f = JNull)"
proof -
  from assms obtain pop cur where
    "upsert_currency w rs i pop cur = Inr (currency_code f, exchange_rate f, estimated_gdp f)"
    by (auto simp: upsert_fields_def then_do_def split: sum.splits prod.splits)
  from upsert_currency_nulls [OF this] show ?thesis .
qed

text \<open>
  C3. An entry whose currency code is \<open>valueOf\<close>, a name the fetched rate table has no
  entry for: \<open>exchangeRates[currencyCode]\<close> finds the function every object inherits,
  so the full-replace mapper binds \<open>NaN\<close> for \<open>exchange_rate\<close> and for
  \<open>estimated_gdp\<close>, and the upsert mapper binds the function and \<open>NaN\<close>, where a
  code without a matching entry should give \<open>null\<close> for both.
\<close>

theorem inherited_rate_is_not_null:
  "map_of usd_rates ''valueOf'' = None
   \<and> full_replace_fields w usd_rates i valueof_v3
     = Inr \<lparr>name = JStr ''Zedland'', capital = JNull, region = JNull, population = JNum 5,
            currency_code = JStr ''valueOf'', exchange_rate = JNaN, estimated_gdp = JNaN,
            flag_url = JNull\<rparr>
   \<and> upsert_fields w usd_rates i valueof_v2
     = Inr \<lparr>name = JStr ''Zedland'', capital = JNull, region = JNull, population = JNum 5,
            currency_code = JStr ''valueOf'', exchange_rate = JNative ''valueOf'',
            estimated_gdp = JNaN, flag_url = JNull\<rparr>"
  by (simp add: num_div_NaN usd_rates_def valueof_v3_def valueof_v2_def model_defs)

end
